theory Spec2Isabelle
  imports Main
begin

section \<open>Values of the program\<close>

text \<open>
  A Python \<open>str\<close> is a sequence of Unicode code points, and \<open>len\<close> and slicing count
  code points. The model keeps a string as the list of its code points.
\<close>

type_synonym ustr = "nat list"

definition ascii :: "string \<Rightarrow> ustr" where
  "ascii s = map of_char s"

text \<open>
  Exceptions are values. \<open>TypeError\<close> and \<open>ValueError\<close> are raised by the standard library,
  \<open>RuntimeError\<close> by the program itself; \<open>ExternalError\<close> stands for any other instance of
  \<open>Exception\<close> raised inside a third-party library or a remote service. Each carries its
  message, which is what \<open>str(exc)\<close> gives.
\<close>

datatype exn = TypeError ustr | ValueError ustr | RuntimeError ustr | ExternalError ustr

subsection \<open>datetime and timedelta\<close>

text \<open>
  A \<open>timedelta\<close> is a number of microseconds. A \<open>datetime\<close> holds its calendar fields as
  the microsecond count \<open>wall\<close> of that wall-clock reading since 1970-01-01 00:00:00, and
  its \<open>tzinfo\<close>: \<open>None\<close> for a naive value, \<open>Some off\<close> for an aware value whose zone is
  \<open>off\<close> ahead of UTC. Ordering and subtraction of a naive and an aware value raise
  \<open>TypeError\<close>, as in the standard library.
\<close>

type_synonym timedelta = int

record datetime =
  wall :: int
  tzinfo :: "timedelta option"

definition td_hours :: "int \<Rightarrow> timedelta" where
  "td_hours h = h * 3600000000"

definition td_days :: "int \<Rightarrow> timedelta" where
  "td_days d = d * 86400000000"

definition instant :: "datetime \<Rightarrow> int" where
  "instant dt = wall dt - (case tzinfo dt of None \<Rightarrow> 0 | Some off \<Rightarrow> off)"

definition dt_minus :: "datetime \<Rightarrow> timedelta \<Rightarrow> datetime" where
  "dt_minus dt d = dt\<lparr>wall := wall dt - d\<rparr>"

definition dt_plus :: "datetime \<Rightarrow> timedelta \<Rightarrow> datetime" where
  "dt_plus dt d = dt\<lparr>wall := wall dt + d\<rparr>"

definition cmp_error :: exn where
  "cmp_error = TypeError (ascii ''can't compare offset-naive and offset-aware datetimes'')"

definition subscript_error :: exn where
  "subscript_error = TypeError (ascii '''NoneType' object is not subscriptable'')"

definition sub_error :: exn where
  "sub_error = TypeError (ascii ''can't subtract offset-naive and offset-aware datetimes'')"

definition dt_less :: "datetime \<Rightarrow> datetime \<Rightarrow> exn + bool" where
  "dt_less a b =
     (case (tzinfo a, tzinfo b) of
        (None, None) \<Rightarrow> Inr (wall a < wall b)
      | (Some oa, Some ob) \<Rightarrow> Inr (wall a - oa < wall b - ob)
      | _ \<Rightarrow> Inl cmp_error)"

definition dt_ge :: "datetime \<Rightarrow> datetime \<Rightarrow> exn + bool" where
  "dt_ge a b =
     (case (tzinfo a, tzinfo b) of
        (None, None) \<Rightarrow> Inr (wall a \<ge> wall b)
      | (Some oa, Some ob) \<Rightarrow> Inr (wall a - oa \<ge> wall b - ob)
      | _ \<Rightarrow> Inl cmp_error)"

definition dt_diff :: "datetime \<Rightarrow> datetime \<Rightarrow> exn + timedelta" where
  "dt_diff a b =
     (case (tzinfo a, tzinfo b) of
        (None, None) \<Rightarrow> Inr (wall a - wall b)
      | (Some oa, Some ob) \<Rightarrow> Inr ((wall a - oa) - (wall b - ob))
      | _ \<Rightarrow> Inl sub_error)"

subsection \<open>Log records and external effects\<close>

text \<open>
  What a run does to the outside is kept as a list of events, in order: a record handed to
  \<open>logging\<close> (level, format string and arguments), a \<open>requests.post\<close> to the messaging
  channel (URL, chat id, text), and a \<open>time.sleep\<close>.
\<close>

datatype level = INFO | WARNING | ERROR

datatype logarg = StrArg ustr | ExnArg exn | IntArg int | HoursArg timedelta | DatetimeArg datetime

datatype event = Log level ustr "logarg list" | Post ustr ustr ustr | Sleep timedelta

subsection \<open>The outside world\<close>

text \<open>
  A feed entry as \<open>feedparser\<close> hands it over: a dictionary in which each of the four keys
  the program reads (\<open>published_parsed\<close>, \<open>title\<close>, \<open>link\<close>, \<open>summary\<close>) may be
  missing (\<open>None\<close>). Under the key \<open>published_parsed\<close>, when it is there, \<open>feedparser\<close>
  stores \<open>None\<close> for a date it could not parse (\<open>Some None\<close>) and otherwise a
  \<open>time.struct_time\<close> in UTC, kept as its count of whole seconds since
  1970-01-01 00:00:00 (\<open>Some (Some st)\<close>).
\<close>

record feed_entry =
  published_parsed :: "int option option"
  entry_title :: "ustr option"
  entry_link :: "ustr option"
  entry_summary :: "ustr option"

record response =
  resp_ok :: bool
  resp_text :: ustr

text \<open>
  Everything the program reads from outside, for one run:
  \<^item> \<open>clock\<close>: the reading of \<open>datetime.utcnow()\<close>, in microseconds since the epoch;
  \<^item> \<open>feedparser_parse url\<close>: the entries of the parsed feed, or the exception it raises;
  \<^item> \<open>Article\<close>: \<open>None\<close> when newspaper3k is not installed; otherwise, for a URL, the text
    of the downloaded and parsed page or the exception raised on the way;
  \<^item> \<open>html_unescape\<close> and \<open>textwrap_shorten\<close>: the two standard-library functions;
  \<^item> \<open>openai_create model system user\<close>: the content of the first choice of the
    completion, or the exception raised;
  \<^item> \<open>BOT_TOKEN\<close> and \<open>CHAT_ID\<close>: the two environment variables, empty when unset;
  \<^item> \<open>requests_post url chat_id text\<close>: the response, or the exception raised.
\<close>

record env =
  clock :: int
  feedparser_parse :: "ustr \<Rightarrow> exn + feed_entry list"
  Article :: "(ustr \<Rightarrow> exn + ustr) option"
  html_unescape :: "ustr \<Rightarrow> ustr"
  textwrap_shorten :: "ustr \<Rightarrow> nat \<Rightarrow> ustr \<Rightarrow> ustr"
  openai_create :: "ustr \<Rightarrow> ustr \<Rightarrow> ustr \<Rightarrow> exn + ustr"
  BOT_TOKEN :: ustr
  CHAT_ID :: ustr
  requests_post :: "ustr \<Rightarrow> ustr \<Rightarrow> ustr \<Rightarrow> exn + response"

section \<open>Configuration\<close>

definition RSS_FEEDS :: "(ustr \<times> ustr) list" where
  "RSS_FEEDS =
     [(ascii ''McKinsey Insights'', ascii ''https://www.mckinsey.com/featured-insights/rss''),
      (ascii ''Harvard Business Review'', ascii ''https://feeds.harvardbusiness.org/harvardbusiness''),
      (ascii ''Fortune Leadership'', ascii ''https://fortune.com/category/leadership/feed''),
      (ascii ''World Economic Forum'', ascii ''https://www.weforum.org/agenda/feed''),
      (ascii ''KPMG'', ascii ''https://home.kpmg/us/en/blogs/home.rss'')]"

definition MAX_ITEMS :: nat where
  "MAX_ITEMS = 5"

definition MAX_ARTICLE_AGE_HOURS :: int where
  "MAX_ARTICLE_AGE_HOURS = 36"

definition MODEL_SUMMARY :: ustr where
  "MODEL_SUMMARY = ascii ''gpt-4o''"

definition MODEL_TRANSLATE :: ustr where
  "MODEL_TRANSLATE = ascii ''gpt-4o-mini''"

section \<open>Feed reader\<close>

type_synonym candidate = "ustr \<times> ustr \<times> ustr \<times> datetime"

definition utcnow :: "env \<Rightarrow> datetime" where
  "utcnow w = \<lparr>wall = clock w, tzinfo = None\<rparr>"

text \<open>\<open>datetime(*e.published_parsed[:6], tzinfo=timezone.utc)\<close>\<close>

definition published_of :: "int \<Rightarrow> datetime" where
  "published_of st = \<lparr>wall = st * 1000000, tzinfo = Some 0\<rparr>"

definition get_or :: "'a option \<Rightarrow> 'a \<Rightarrow> 'a" where
  "get_or v d = (case v of None \<Rightarrow> d | Some x \<Rightarrow> x)"

text \<open>
  The inner loop over \<open>d.entries\<close>; \<open>entries\<close> is the list built so far. An entry without
  the key is skipped; with the key present and \<open>None\<close> under it, \<open>e.published_parsed[:6]\<close>
  raises.
\<close>

fun scan_entries :: "datetime \<Rightarrow> feed_entry list \<Rightarrow> candidate list \<Rightarrow> exn + candidate list" where
  "scan_entries cutoff [] entries = Inr entries"
| "scan_entries cutoff (e # es) entries =
     (case published_parsed e of
        None \<Rightarrow> scan_entries cutoff es entries
      | Some None \<Rightarrow> Inl subscript_error
      | Some (Some st) \<Rightarrow>
          (let published = published_of st in
           case dt_less published cutoff of
             Inl exc \<Rightarrow> Inl exc
           | Inr older \<Rightarrow>
               if older then scan_entries cutoff es entries
               else scan_entries cutoff es
                      (entries @ [(get_or (entry_title e) (ascii ''(no title)''),
                                   get_or (entry_link e) [],
                                   get_or (entry_summary e) [],
                                   published)])))"

text \<open>The outer loop over the feed sources.\<close>

fun scan_feeds :: "env \<Rightarrow> datetime \<Rightarrow> (ustr \<times> ustr) list \<Rightarrow> candidate list \<Rightarrow> exn + candidate list" where
  "scan_feeds w cutoff [] entries = Inr entries"
| "scan_feeds w cutoff ((source, url) # feeds) entries =
     (case feedparser_parse w url of
        Inl exc \<Rightarrow> Inl exc
      | Inr d \<Rightarrow>
          (case scan_entries cutoff d entries of
             Inl exc \<Rightarrow> Inl exc
           | Inr entries' \<Rightarrow> scan_feeds w cutoff feeds entries'))"

text \<open>
  \<open>entries.sort(key=lambda x: x[3], reverse=True)\<close>: a stable sort, newest first. Every
  stored datetime is aware, so the key is compared through its instant.
\<close>

definition sort_newest_first :: "candidate list \<Rightarrow> candidate list" where
  "sort_newest_first entries = sort_key (\<lambda>x. - instant (snd (snd (snd x)))) entries"

text \<open>The body of \<open>fetch_recent_entries\<close>, for any list of configured sources.\<close>

definition fetch_entries_from :: "env \<Rightarrow> (ustr \<times> ustr) list \<Rightarrow> exn + candidate list" where
  "fetch_entries_from w feeds =
     (let cutoff = dt_minus (utcnow w) (td_hours MAX_ARTICLE_AGE_HOURS) in
      case scan_feeds w cutoff feeds [] of
        Inl exc \<Rightarrow> Inl exc
      | Inr entries \<Rightarrow> Inr (take (MAX_ITEMS * 2) (sort_newest_first entries)))"

definition fetch_recent_entries :: "env \<Rightarrow> exn + candidate list" where
  "fetch_recent_entries w = fetch_entries_from w RSS_FEEDS"

section \<open>Article extractor\<close>

text \<open>The characters \<open>str.split()\<close> and \<open>str.strip()\<close> treat as whitespace.\<close>

definition is_space :: "nat \<Rightarrow> bool" where
  "is_space c \<longleftrightarrow>
     c \<in> set [9, 10, 11, 12, 13, 28, 29, 30, 31, 32, 133, 160, 5760, 8192, 8193, 8194, 8195,
                8196, 8197, 8198, 8199, 8200, 8201, 8202, 8232, 8233, 8239, 8287, 12288]"

text \<open>\<open>s.split()\<close>: the maximal runs of non-whitespace; \<open>word\<close> is the run being read.\<close>

fun split_from :: "ustr \<Rightarrow> ustr \<Rightarrow> ustr list" where
  "split_from [] word = (if word = [] then [] else [word])"
| "split_from (c # cs) word =
     (if is_space c then (if word = [] then split_from cs [] else word # split_from cs [])
      else split_from cs (word @ [c]))"

definition split :: "ustr \<Rightarrow> ustr list" where
  "split s = split_from s []"

text \<open>\<open>sep.join(parts)\<close>\<close>

fun join :: "ustr \<Rightarrow> ustr list \<Rightarrow> ustr" where
  "join sep [] = []"
| "join sep [p] = p"
| "join sep (p # q # ps) = p @ sep @ join sep (q # ps)"

text \<open>The fallback of \<open>extract_text\<close>: the expression of its last statement.\<close>

definition fallback_text :: "env \<Rightarrow> ustr \<Rightarrow> ustr" where
  "fallback_text w fallback_html =
     html_unescape w
       (textwrap_shorten w (join [32] (split (html_unescape w fallback_html))) 2000 [8230])"

definition extract_text :: "env \<Rightarrow> ustr \<Rightarrow> ustr \<Rightarrow> ustr \<times> event list" where
  "extract_text w url fallback_html =
     (case Article w of
        None \<Rightarrow> (fallback_text w fallback_html, [])
      | Some article \<Rightarrow>
          (case article url of
             Inr article_text \<Rightarrow>
               if article_text \<noteq> [] then (article_text, [])
               else (fallback_text w fallback_html, [])
           | Inl exc \<Rightarrow>
               (fallback_text w fallback_html,
                [Log WARNING (ascii ''newspaper3k failed: %s'') [ExnArg exc]])))"

section \<open>Language model client\<close>

definition strip :: "ustr \<Rightarrow> ustr" where
  "strip s = rev (dropWhile is_space (rev (dropWhile is_space s)))"

definition chat_completion :: "env \<Rightarrow> ustr \<Rightarrow> ustr \<Rightarrow> ustr \<Rightarrow> exn + ustr" where
  "chat_completion w model system user =
     (case openai_create w model system user of
        Inl exc \<Rightarrow> Inl exc
      | Inr content \<Rightarrow> Inr (strip content))"

definition summarize :: "env \<Rightarrow> ustr \<Rightarrow> exn + ustr" where
  "summarize w article_text =
     (let system = ascii ''You are a strategy editor writing concise executive summaries.'';
          user = ascii ''Summarize the following text in 2'' @ [8211]
                 @ ascii ''3 formal sentences for a senior business leader ''
                 @ ascii ''(clarity, no buzzwords):'' @ [10, 10] @ article_text
      in chat_completion w MODEL_SUMMARY system user)"

definition translate_persian :: "env \<Rightarrow> ustr \<Rightarrow> exn + ustr" where
  "translate_persian w summary =
     (let system = ascii ''You are a professional translator proficient in Persian (Farsi).'';
          user = ascii ''Translate the following English executive summary into formal Persian (Farsi) while keeping the tone professional and concise:''
                 @ [10, 10] @ summary
      in chat_completion w MODEL_TRANSLATE system user)"

section \<open>Message builder\<close>

type_synonym item = "ustr \<times> ustr \<times> ustr"

fun html_escape :: "ustr \<Rightarrow> ustr" where
  "html_escape [] = []"
| "html_escape (c # cs) =
     (if c = 38 then ascii ''&amp;''
      else if c = 60 then ascii ''&lt;''
      else if c = 62 then ascii ''&gt;''
      else if c = 34 then ascii ''&quot;''
      else if c = 39 then ascii ''&#x27;''
      else [c]) @ html_escape cs"

text \<open>\<open>str(idx)\<close> for a positive index: its decimal digits.\<close>

fun str_nat :: "nat \<Rightarrow> ustr" where
  "str_nat n = (if n < 10 then [48 + n] else str_nat (n div 10) @ [48 + n mod 10])"

declare str_nat.simps [simp del]

text \<open>The lines appended by the loop of \<open>build_message\<close>, \<open>idx\<close> being the running index.\<close>

fun message_lines :: "nat \<Rightarrow> item list \<Rightarrow> ustr list" where
  "message_lines idx [] = []"
| "message_lines idx ((title, en, fa) # items) =
     [[128204] @ ascii '' Insight #'' @ str_nat idx @ ascii '':'',
      [128478] @ ascii '' Title: '' @ html_escape title,
      [9997, 65039] @ ascii '' English Summary (Formal): '' @ html_escape en,
      [127535] @ ascii '' Persian Translation (Formal): '' @ html_escape fa,
      [10]]
     @ message_lines (Suc idx) items"

definition build_message :: "item list \<Rightarrow> ustr" where
  "build_message items = take 4000 (join [10] (message_lines 1 items))"

section \<open>Delivery client\<close>

definition send_telegram :: "env \<Rightarrow> ustr \<Rightarrow> (exn + unit) \<times> event list" where
  "send_telegram w txt =
     (if BOT_TOKEN w = [] \<or> CHAT_ID w = []
      then (Inl (RuntimeError (ascii ''Telegram credentials missing.'')), [])
      else
        let url = ascii ''https://api.telegram.org/bot'' @ BOT_TOKEN w @ ascii ''/sendMessage'' in
        case requests_post w url (CHAT_ID w) txt of
          Inl exc \<Rightarrow> (Inl exc, [Post url (CHAT_ID w) txt])
        | Inr resp \<Rightarrow>
            if \<not> resp_ok resp
            then (Inl (RuntimeError (ascii ''Telegram error: '' @ resp_text resp)),
                  [Post url (CHAT_ID w) txt])
            else (Inr (), [Post url (CHAT_ID w) txt]))"

section \<open>Main flow\<close>

text \<open>The body of the loop of \<open>run_once\<close> for one entry: the item, or the exception caught.\<close>

definition process_entry :: "env \<Rightarrow> candidate \<Rightarrow> (exn + item) \<times> event list" where
  "process_entry w entry =
     (case entry of (title, link, summary_html, _) \<Rightarrow>
        (let ev0 = [Log INFO (ascii ''Processing: %s'') [StrArg title]];
             (full_text, ev1) = extract_text w link summary_html;
             failed = (\<lambda>exc. [Log ERROR (ascii ''OpenAI failed for '%s': %s'')
                                 [StrArg title, ExnArg exc]])
         in (case summarize w full_text of
               Inl exc \<Rightarrow> (Inl exc, ev0 @ ev1 @ failed exc)
             | Inr en_summary \<Rightarrow>
                 (case translate_persian w en_summary of
                    Inl exc \<Rightarrow> (Inl exc, ev0 @ ev1 @ failed exc)
                  | Inr fa_summary \<Rightarrow> (Inr (title, en_summary, fa_summary), ev0 @ ev1)))))"

text \<open>The loop of \<open>run_once\<close>; \<open>processed\<close> is the list built so far.\<close>

fun process_entries :: "env \<Rightarrow> candidate list \<Rightarrow> item list \<Rightarrow> item list \<times> event list" where
  "process_entries w [] processed = (processed, [])"
| "process_entries w (entry # entries) processed =
     (if length processed \<ge> MAX_ITEMS then (processed, [])
      else
        case process_entry w entry of
          (Inl exc, ev) \<Rightarrow>
            (let (processed', ev') = process_entries w entries processed
             in (processed', ev @ ev'))
        | (Inr it, ev) \<Rightarrow>
            (let (processed', ev') = process_entries w entries (processed @ [it])
             in (processed', ev @ ev')))"

text \<open>\<open>run_once\<close> from the statement after the call of \<open>fetch_recent_entries\<close> on.\<close>

definition run_once_on :: "env \<Rightarrow> candidate list \<Rightarrow> (exn + unit) \<times> event list" where
  "run_once_on w entries =
     (let (processed, ev) = process_entries w entries [] in
      if processed = []
      then (Inr (), ev @ [Log WARNING (ascii ''No items processed '' @ [8211] @ ascii '' aborting send.'') []])
      else
        let message = build_message processed;
            (sent, ev') = send_telegram w message
        in case sent of
             Inl exc \<Rightarrow> (Inl exc, ev @ ev')
           | Inr _ \<Rightarrow>
               (Inr (), ev @ ev' @ [Log INFO (ascii ''Message sent to Telegram (length %s)'')
                                      [IntArg (int (length message))]]))"

definition run_once :: "env \<Rightarrow> (exn + unit) \<times> event list" where
  "run_once w =
     (let ev0 = [Log INFO (ascii ''Fetching recent entries'' @ [8230]) []] in
      case fetch_recent_entries w of
        Inl exc \<Rightarrow> (Inl exc, ev0)
      | Inr entries \<Rightarrow> (let (r, ev) = run_once_on w entries in (r, ev0 @ ev)))"

section \<open>Continuous mode\<close>

text \<open>
  \<open>tz\<close> is the zone \<open>pytz.timezone("Asia/Tehran")\<close>: for a UTC instant, the offset of Tehran
  time at that instant. \<open>astimezone\<close> keeps the instant and takes the offset in force at it;
  \<open>replace\<close> and \<open>+= timedelta(days=1)\<close> change the wall-clock fields and keep the
  \<open>tzinfo\<close>.
\<close>

type_synonym zone = "int \<Rightarrow> timedelta"

definition now_utc :: "int \<Rightarrow> datetime" where
  "now_utc c = \<lparr>wall = c, tzinfo = Some 0\<rparr>"

definition astimezone :: "zone \<Rightarrow> datetime \<Rightarrow> datetime" where
  "astimezone tz dt = (let i = instant dt in \<lparr>wall = i + tz i, tzinfo = Some (tz i)\<rparr>)"

text \<open>\<open>dt.replace(hour=h, minute=m, second=0, microsecond=0)\<close>\<close>

definition replace_time :: "datetime \<Rightarrow> int \<Rightarrow> int \<Rightarrow> datetime" where
  "replace_time dt h m =
     dt\<lparr>wall := (wall dt div td_days 1) * td_days 1 + h * 3600000000 + m * 60000000\<rparr>"

text \<open>
  The head of one iteration of the loop, up to \<open>sleep_seconds\<close>: the target and the
  timedelta whose \<open>total_seconds()\<close> is slept. \<open>c\<close> is the reading of
  \<open>datetime.now(timezone.utc)\<close> in microseconds since the epoch.
\<close>

definition next_run :: "zone \<Rightarrow> int \<Rightarrow> exn + (datetime \<times> timedelta)" where
  "next_run tz c =
     (let now_teh = astimezone tz (now_utc c);
          target = replace_time now_teh 9 30
      in case dt_ge now_teh target of
           Inl exc \<Rightarrow> Inl exc
         | Inr passed \<Rightarrow>
             (let target' = (if passed then dt_plus target (td_days 1) else target)
              in case dt_diff target' now_teh of
                   Inl exc \<Rightarrow> Inl exc
                 | Inr sleep_td \<Rightarrow> Inr (target', sleep_td)))"

text \<open>
  The loop \<open>while True\<close>. It has no exit of its own, so a run of it is followed along a
  script: the list of what each successive iteration finds (the clock reading at its head
  and the world its \<open>run_once\<close> sees). The result is \<open>Some exc\<close> when an iteration raises
  \<open>exc\<close>, which ends the loop, and \<open>None\<close> when the loop is still going once the script is
  used up; with it come the events so far.
\<close>

fun main_loop :: "zone \<Rightarrow> (int \<times> env) list \<Rightarrow> exn option \<times> event list" where
  "main_loop tz [] = (None, [])"
| "main_loop tz ((c, w) # script) =
     (case next_run tz c of
        Inl exc \<Rightarrow> (Some exc, [])
      | Inr (target, sleep_td) \<Rightarrow>
          (let ev0 = [Log INFO (ascii ''Sleeping %.1f h until next run at %s Tehran'')
                        [HoursArg sleep_td, DatetimeArg target]]
           in if sleep_td < 0
              then (Some (ValueError (ascii ''sleep length must be non-negative'')), ev0)
              else
                case run_once w of
                  (Inl exc, ev) \<Rightarrow> (Some exc, ev0 @ [Sleep sleep_td] @ ev)
                | (Inr _, ev) \<Rightarrow>
                    (let (r, ev') = main_loop tz script
                     in (r, ev0 @ [Sleep sleep_td] @ ev @ ev'))))"

text \<open>The two events at the head of an iteration: the log record and the sleep.\<close>

definition sleeping :: "datetime \<Rightarrow> timedelta \<Rightarrow> event list" where
  "sleeping target d = [Log INFO (ascii ''Sleeping %.1f h until next run at %s Tehran'')
                        [HoursArg d, DatetimeArg target], Sleep d]"

section \<open>Sample worlds\<close>

text \<open>
  Concrete worlds on which the theorems below are evaluated. \<open>decode_refs\<close> decodes the two
  references \<open>&amp;\<close> and \<open>&#32;\<close> and \<open>cut_to\<close> returns a text that fits unchanged; on the
  strings used below this is what \<open>html.unescape\<close> and \<open>textwrap.shorten\<close> return.
\<close>

fun decode_refs :: "ustr \<Rightarrow> ustr" where
  "decode_refs [] = []"
| "decode_refs (c # cs) =
     (if c = 38 \<and> take 4 cs = ascii ''amp;'' then 38 # decode_refs (drop 4 cs)
      else if c = 38 \<and> take 4 cs = ascii ''#32;'' then 32 # decode_refs (drop 4 cs)
      else c # decode_refs cs)"

definition cut_to :: "ustr \<Rightarrow> nat \<Rightarrow> ustr \<Rightarrow> ustr" where
  "cut_to t n p = (if length t \<le> n then t else take (n - length p) t @ p)"

text \<open>
  A world at 2024-06-02 12:00:00 UTC in which every feed is empty, newspaper3k is not
  installed, the model echoes its prompt and the channel accepts every message.
\<close>

definition calm_world :: env where
  "calm_world =
     \<lparr>clock = 1717329600000000,
      feedparser_parse = (\<lambda>url. Inr []),
      Article = None,
      html_unescape = decode_refs,
      textwrap_shorten = cut_to,
      openai_create = (\<lambda>model system user. Inr user),
      BOT_TOKEN = ascii ''123:abc'',
      CHAT_ID = ascii ''42'',
      requests_post = (\<lambda>url chat_id txt. Inr \<lparr>resp_ok = True, resp_text = []\<rparr>)\<rparr>"

definition dated_entry :: "int \<Rightarrow> feed_entry" where
  "dated_entry st =
     \<lparr>published_parsed = Some (Some st), entry_title = Some (ascii ''A''),
      entry_link = Some (ascii ''https://example.org/a''), entry_summary = Some (ascii ''s'')\<rparr>"

text \<open>One entry published 2024-06-01 00:00:00 UTC, exactly 36 hours before the clock.\<close>

definition boundary_world :: env where
  "boundary_world =
     calm_world\<lparr>feedparser_parse :=
       (\<lambda>url. if url = ascii ''https://www.weforum.org/agenda/feed''
              then Inr [dated_entry 1717200000] else Inr [])\<rparr>"

text \<open>One entry published 2024-06-02 11:00:00 UTC, one hour before the clock.\<close>

definition fresh_world :: env where
  "fresh_world =
     calm_world\<lparr>feedparser_parse :=
       (\<lambda>url. if url = ascii ''https://feeds.harvardbusiness.org/harvardbusiness''
              then Inr [dated_entry 1717326000] else Inr [])\<rparr>"

text \<open>The third feed cannot be read: \<open>feedparser.parse\<close> raises.\<close>

definition broken_feed_world :: env where
  "broken_feed_world =
     calm_world\<lparr>feedparser_parse :=
       (\<lambda>url. if url = ascii ''https://fortune.com/category/leadership/feed''
              then Inl (ExternalError (ascii ''Connection reset by peer'')) else Inr [])\<rparr>"

text \<open>The channel refuses the message.\<close>

definition refusing_world :: env where
  "refusing_world =
     calm_world\<lparr>requests_post :=
       (\<lambda>url chat_id txt. Inr \<lparr>resp_ok = False, resp_text = ascii ''Bad Request: chat not found''\<rparr>)\<rparr>"

text \<open>The bot token is not set.\<close>

definition missing_token_world :: env where
  "missing_token_world = calm_world\<lparr>BOT_TOKEN := []\<rparr>"

text \<open>
  The model call fails for a prompt that ends in \<open>2\<close> and answers \<open>Summary.\<close> otherwise.
  Of the three candidate entries below, the text of the second ends so.
\<close>

definition scenario_world :: env where
  "scenario_world =
     calm_world\<lparr>openai_create :=
       (\<lambda>model system user.
          if last user = 50 then Inl (ExternalError (ascii ''Rate limit reached''))
          else Inr (ascii ''Summary.''))\<rparr>"

definition first_entry :: candidate where
  "first_entry =
     (ascii ''First'', ascii ''https://example.org/1'', ascii ''story 1'', published_of 1717326000)"

definition second_entry :: candidate where
  "second_entry =
     (ascii ''Second'', ascii ''https://example.org/2'', ascii ''story 2'', published_of 1717322400)"

definition third_entry :: candidate where
  "third_entry =
     (ascii ''Third'', ascii ''https://example.org/3'', ascii ''story 3'', published_of 1717318800)"

definition three_entries :: "candidate list" where
  "three_entries = [first_entry, second_entry, third_entry]"

text \<open>
  newspaper3k is installed: one page cannot be downloaded, one has no text, every other
  page has some.
\<close>

definition newspaper_world :: env where
  "newspaper_world =
     calm_world\<lparr>Article := Some
       (\<lambda>url. if url = ascii ''https://example.org/down''
              then Inl (ExternalError (ascii ''Article download failed''))
              else if url = ascii ''https://example.org/empty'' then Inr []
              else Inr (ascii ''Full text of the page.''))\<rparr>"

text \<open>
  The summary model answers \<open>Summary\<close> and the last character of its prompt; the
  translation model fails for a summary that ends in \<open>2\<close>.
\<close>

definition translator_fails_world :: env where
  "translator_fails_world =
     calm_world\<lparr>openai_create :=
       (\<lambda>model system user.
          if model = ascii ''gpt-4o-mini''
          then (if last user = 50 then Inl (ExternalError (ascii ''Service unavailable''))
                else Inr (ascii ''Tarjome.''))
          else Inr (ascii ''Summary '' @ [last user]))\<rparr>"

text \<open>Tehran time as the source's docstring has it: UTC+3:30 all year.\<close>

definition tehran :: zone where
  "tehran i = 12600000000"

text \<open>
  Tehran time as the zone database has it for 2021: UTC+4:30 from 2021-03-21 20:30:00 UTC
  to 2021-09-21 19:30:00 UTC, UTC+3:30 outside.
\<close>

definition tehran_2021 :: zone where
  "tehran_2021 i =
     (if 1616358600000000 \<le> i \<and> i < 1632252600000000 then 16200000000 else 12600000000)"

text \<open>One entry whose date \<open>feedparser\<close> could not parse: the key is there, with \<open>None\<close>.\<close>

definition unparsed_date_world :: env where
  "unparsed_date_world =
     calm_world\<lparr>feedparser_parse :=
       (\<lambda>url. if url = ascii ''https://home.kpmg/us/en/blogs/home.rss''
              then Inr [(dated_entry 0)\<lparr>published_parsed := Some None\<rparr>] else Inr [])\<rparr>"

section \<open>Feed reader: properties\<close>

text \<open>
  The cutoff is naive (\<open>datetime.utcnow()\<close>) and every publication time is aware
  (\<open>tzinfo=timezone.utc\<close>), so the comparison \<open>published < cutoff\<close> raises for the first
  entry that carries a parsed date under \<open>published_parsed\<close>; an entry that carries \<open>None\<close>
  there raises one line earlier. The reader returns only when no entry has the key.
\<close>

lemma cutoff_naive: "tzinfo (dt_minus (utcnow w) d) = None"
  by (simp add: dt_minus_def utcnow_def)

lemma scan_entries_naive:
  "tzinfo cutoff = None \<Longrightarrow> scan_entries cutoff es acc = Inr out \<Longrightarrow>
   out = acc \<and> (\<forall>e \<in> set es. published_parsed e = None)"
  by (induction es arbitrary: acc)
     (auto simp: dt_less_def published_of_def split: option.splits)

lemma scan_feeds_naive:
  "tzinfo cutoff = None \<Longrightarrow> scan_feeds w cutoff feeds acc = Inr out \<Longrightarrow> out = acc"
proof (induction feeds arbitrary: acc)
  case Nil
  then show ?case by simp
next
  case (Cons f feeds)
  obtain source url where f: "f = (source, url)" by (cases f)
  from Cons.prems show ?case
    by (auto simp: f split: sum.splits dest: scan_entries_naive Cons.IH)
qed

lemma fetch_returns_nothing:
  "fetch_entries_from w feeds = Inr out \<Longrightarrow> out = []"
  by (auto simp: fetch_entries_from_def Let_def sort_newest_first_def
      split: sum.splits dest!: scan_feeds_naive [OF cutoff_naive])

lemma unparsed_date_raises:
  "fetch_recent_entries unparsed_date_world = Inl subscript_error"
  by (simp add: fetch_recent_entries_def fetch_entries_from_def RSS_FEEDS_def
      unparsed_date_world_def calm_world_def dated_entry_def ascii_def)

lemma scan_feeds_append:
  "scan_feeds w cutoff (fs1 @ fs2) acc =
     (case scan_feeds w cutoff fs1 acc of
        Inl exc \<Rightarrow> Inl exc
      | Inr acc' \<Rightarrow> scan_feeds w cutoff fs2 acc')"
proof (induction fs1 arbitrary: acc)
  case Nil
  then show ?case by simp
next
  case (Cons f fs1)
  obtain source url where f: "f = (source, url)" by (cases f)
  show ?case by (simp add: f Cons.IH split: sum.splits)
qed

text \<open>
  C1. The feed reader's output holds only entries with a publication timestamp not older
  than 36 hours, newest first, at most ten. The code does not get that far: in a world
  whose second feed carries one entry published an hour ago, \<open>fetch_recent_entries\<close>
  returns no list at all but raises \<open>TypeError\<close>.
\<close>

theorem fresh_entry_raises_TypeError:
  "fetch_recent_entries fresh_world = Inl cmp_error"
  by (simp add: fetch_recent_entries_def fetch_entries_from_def RSS_FEEDS_def fresh_world_def
      calm_world_def dated_entry_def utcnow_def dt_minus_def dt_less_def published_of_def
      ascii_def)

text \<open>
  C10. An entry whose publication time equals the cutoff is meant to be kept, since only
  \<open>published < cutoff\<close> excludes. In a world whose fourth feed carries one entry published
  exactly 36 hours before the clock, the comparison raises \<open>TypeError\<close> instead and the
  entry is not returned.
\<close>

theorem boundary_entry_raises_TypeError:
  "fetch_recent_entries boundary_world = Inl cmp_error"
  by (simp add: fetch_recent_entries_def fetch_entries_from_def RSS_FEEDS_def boundary_world_def
      calm_world_def dated_entry_def utcnow_def dt_minus_def dt_less_def published_of_def
      ascii_def)

text \<open>
  C2, as the claim states it: a source whose fetch fails contributes nothing and the
  failure is not raised to the caller. It is: when \<open>feedparser.parse\<close> raises for the third
  feed, \<open>fetch_recent_entries\<close> raises the same exception.
\<close>

theorem feed_failure_reaches_caller:
  "fetch_recent_entries broken_feed_world = Inl (ExternalError (ascii ''Connection reset by peer''))"
  by (simp add: fetch_recent_entries_def fetch_entries_from_def RSS_FEEDS_def
      broken_feed_world_def calm_world_def ascii_def)

text \<open>
  C2, amended. For every list of configured sources: a source for which
  \<open>feedparser.parse\<close> returns no entries contributes nothing, and the result is the one
  obtained without that source; an exception raised by \<open>feedparser.parse\<close> for a source is
  raised to the caller, once the sources before it have been read.
\<close>

theorem empty_source_contributes_nothing:
  "(feedparser_parse w url = Inr [] \<longrightarrow>
      fetch_entries_from w (earlier @ (source, url) # later) = fetch_entries_from w (earlier @ later))
   \<and> (feedparser_parse w url = Inl exc \<longrightarrow> fetch_entries_from w earlier = Inr out \<longrightarrow>
      fetch_entries_from w (earlier @ (source, url) # later) = Inl exc)"
  by (auto simp: fetch_entries_from_def Let_def scan_feeds_append split: sum.splits)

theorem empty_source_contributes_nothing_witness:
  "feedparser_parse calm_world (ascii ''https://fortune.com/category/leadership/feed'') = Inr []
   \<and> fetch_entries_from calm_world
        (take 2 RSS_FEEDS
         @ (ascii ''Fortune Leadership'', ascii ''https://fortune.com/category/leadership/feed'')
         # drop 3 RSS_FEEDS)
       = fetch_entries_from calm_world (take 2 RSS_FEEDS @ drop 3 RSS_FEEDS)
   \<and> feedparser_parse broken_feed_world (ascii ''https://fortune.com/category/leadership/feed'')
       = Inl (ExternalError (ascii ''Connection reset by peer''))
   \<and> fetch_entries_from broken_feed_world (take 2 RSS_FEEDS) = Inr []
   \<and> fetch_entries_from broken_feed_world
        (take 2 RSS_FEEDS
         @ (ascii ''Fortune Leadership'', ascii ''https://fortune.com/category/leadership/feed'')
         # drop 3 RSS_FEEDS)
       = Inl (ExternalError (ascii ''Connection reset by peer''))"
proof -
  have a: "feedparser_parse calm_world (ascii ''https://fortune.com/category/leadership/feed'') = Inr []"
    by (simp add: calm_world_def)
  have b: "feedparser_parse broken_feed_world (ascii ''https://fortune.com/category/leadership/feed'')
             = Inl (ExternalError (ascii ''Connection reset by peer''))"
    by (simp add: broken_feed_world_def)
  have c: "fetch_entries_from broken_feed_world (take 2 RSS_FEEDS) = Inr []"
    by (simp add: fetch_entries_from_def RSS_FEEDS_def broken_feed_world_def calm_world_def
        sort_newest_first_def ascii_def)
  show ?thesis
    using a b c
      empty_source_contributes_nothing [where w = calm_world
        and url = "ascii ''https://fortune.com/category/leadership/feed''"
        and earlier = "take 2 RSS_FEEDS" and source = "ascii ''Fortune Leadership''"
        and later = "drop 3 RSS_FEEDS"]
      empty_source_contributes_nothing [where w = broken_feed_world
        and url = "ascii ''https://fortune.com/category/leadership/feed''"
        and exc = "ExternalError (ascii ''Connection reset by peer'')"
        and earlier = "take 2 RSS_FEEDS" and out = "[]"
        and source = "ascii ''Fortune Leadership''" and later = "drop 3 RSS_FEEDS"]
    by simp
qed

section \<open>Message builder: properties\<close>

text \<open>
  C5. For every list of items, those of one to five items with summaries of any length
  among them, the string returned by \<open>build_message\<close> has at most 4000 characters.
\<close>

theorem build_message_within_cap:
  "length (build_message items) \<le> 4000"
  by (simp add: build_message_def)

theorem build_message_within_cap_witness:
  "length (build_message [(ascii ''Title'', replicate 5000 97, replicate 5000 1575)]) \<le> 4000"
  using build_message_within_cap [of "[(ascii ''Title'', replicate 5000 97, replicate 5000 1575)]"]
  by simp

section \<open>Article extractor: properties\<close>

lemma decode_refs_length: "length (decode_refs s) \<le> length s"
  by (induction s rule: decode_refs.induct) (auto simp: ascii_def)

lemma cut_to_length: "length p \<le> n \<Longrightarrow> length (cut_to t n p) \<le> n"
  by (simp add: cut_to_def)

text \<open>
  C6, as the claim states it: when the full-page path is unavailable, the result is the
  fallback summary with entities decoded, whitespace collapsed and truncated. The code
  decodes entities once more after truncating. With newspaper3k absent and the fallback
  \<open>a&amp;#32;&amp;#32;b\<close>, decoding, collapsing and truncating give \<open>a&#32;&#32;b\<close>, but
  \<open>extract_text\<close> returns \<open>a  b\<close>, with two spaces that collapsing would have made one.
\<close>

theorem fallback_decoded_twice:
  "fst (extract_text calm_world (ascii ''https://example.org/a'') (ascii ''a&amp;#32;&amp;#32;b''))
     = ascii ''a  b''
   \<and> textwrap_shorten calm_world
        (join [32] (split (html_unescape calm_world (ascii ''a&amp;#32;&amp;#32;b'')))) 2000 [8230]
     = ascii ''a&#32;&#32;b''
   \<and> join [32] (split (ascii ''a  b'')) = ascii ''a b''"
  by (simp add: extract_text_def fallback_text_def calm_world_def cut_to_def split_def
      is_space_def ascii_def)

text \<open>
  C6, amended. Let \<open>html.unescape\<close> never lengthen a string and \<open>textwrap.shorten\<close> keep to
  the width 2000. For every link and fallback summary \<open>extract_text\<close> returns a text and
  raises nothing: if the full-page path is unavailable, throws or yields empty text, the
  result is \<open>html.unescape\<close> applied to the fallback summary decoded, whitespace-collapsed
  and shortened to 2000 characters with the ellipsis as placeholder, and has at most 2000
  characters; otherwise it is the text of the page.
\<close>

theorem extract_text_always_text:
  assumes "\<forall>s. length (html_unescape w s) \<le> length s"
    and "\<forall>t. length (textwrap_shorten w t 2000 [8230]) \<le> 2000"
  shows "(Article w = None \<or> (\<exists>article. Article w = Some article \<and>
            (article url = Inr [] \<or> (\<exists>exc. article url = Inl exc))) \<longrightarrow>
          fst (extract_text w url fallback_html) =
            html_unescape w
              (textwrap_shorten w (join [32] (split (html_unescape w fallback_html))) 2000 [8230])
          \<and> length (fst (extract_text w url fallback_html)) \<le> 2000)
       \<and> (\<forall>article t. Article w = Some article \<and> article url = Inr t \<and> t \<noteq> [] \<longrightarrow>
            extract_text w url fallback_html = (t, []))"
proof -
  have "length (fallback_text w fallback_html) \<le> 2000"
    unfolding fallback_text_def using assms order_trans by blast
  then show ?thesis
    by (auto simp: extract_text_def fallback_text_def split: option.splits sum.splits)
qed

theorem extract_text_always_text_witness:
  "fst (extract_text calm_world (ascii ''https://example.org/a'') (ascii ''R&amp;D   news''))
     = ascii ''R&D news''
   \<and> length (fst (extract_text calm_world (ascii ''https://example.org/a'')
                  (ascii ''R&amp;D   news''))) \<le> 2000
   \<and> fst (extract_text newspaper_world (ascii ''https://example.org/down'') (ascii ''R&amp;D   news''))
     = ascii ''R&D news''
   \<and> fst (extract_text newspaper_world (ascii ''https://example.org/empty'') (ascii ''R&amp;D   news''))
     = ascii ''R&D news''
   \<and> extract_text newspaper_world (ascii ''https://example.org/a'') (ascii ''R&amp;D   news'')
     = (ascii ''Full text of the page.'', [])"
proof -
  have 1: "\<forall>s. length (html_unescape calm_world s) \<le> length s"
    by (simp add: calm_world_def decode_refs_length)
  have 2: "\<forall>t. length (textwrap_shorten calm_world t 2000 [8230]) \<le> 2000"
    by (simp add: calm_world_def cut_to_length)
  have 3: "\<forall>s. length (html_unescape newspaper_world s) \<le> length s"
    by (simp add: newspaper_world_def calm_world_def decode_refs_length)
  have 4: "\<forall>t. length (textwrap_shorten newspaper_world t 2000 [8230]) \<le> 2000"
    by (simp add: newspaper_world_def calm_world_def cut_to_length)
  have a: "Article calm_world = None"
    by (simp add: calm_world_def)
  have b: "\<exists>article. Article newspaper_world = Some article
      \<and> article (ascii ''https://example.org/down'') = Inl (ExternalError (ascii ''Article download failed''))
      \<and> article (ascii ''https://example.org/empty'') = Inr []
      \<and> article (ascii ''https://example.org/a'') = Inr (ascii ''Full text of the page.'')"
    by (simp add: newspaper_world_def ascii_def)
  have c: "html_unescape w
        (textwrap_shorten w (join [32] (split (html_unescape w (ascii ''R&amp;D   news'')))) 2000 [8230])
      = ascii ''R&D news''" if "w = calm_world \<or> w = newspaper_world" for w
    using that
    by (auto simp: newspaper_world_def calm_world_def cut_to_def split_def is_space_def ascii_def)
  from extract_text_always_text [OF 1 2, of "ascii ''https://example.org/a''" "ascii ''R&amp;D   news''"]
    extract_text_always_text [OF 3 4, of "ascii ''https://example.org/down''" "ascii ''R&amp;D   news''"]
    extract_text_always_text [OF 3 4, of "ascii ''https://example.org/empty''" "ascii ''R&amp;D   news''"]
    extract_text_always_text [OF 3 4, of "ascii ''https://example.org/a''" "ascii ''R&amp;D   news''"]
    a b c [of calm_world] c [of newspaper_world]
  show ?thesis
    by (auto simp: ascii_def)
qed

section \<open>Delivery client: properties\<close>

text \<open>
  C7. When the bot token or the chat id is missing, \<open>send_telegram\<close> raises the
  configuration error and posts nothing. When both are present it posts exactly once,
  whatever the answer, and a response that is not a success makes it raise an error that
  carries the response body.
\<close>

theorem send_telegram_fatal_errors:
  "(BOT_TOKEN w = [] \<or> CHAT_ID w = [] \<longrightarrow>
      send_telegram w txt = (Inl (RuntimeError (ascii ''Telegram credentials missing.'')), []))
   \<and> (BOT_TOKEN w \<noteq> [] \<and> CHAT_ID w \<noteq> [] \<longrightarrow>
      snd (send_telegram w txt) =
        [Post (ascii ''https://api.telegram.org/bot'' @ BOT_TOKEN w @ ascii ''/sendMessage'')
           (CHAT_ID w) txt]
      \<and> (\<forall>resp. requests_post w
             (ascii ''https://api.telegram.org/bot'' @ BOT_TOKEN w @ ascii ''/sendMessage'')
             (CHAT_ID w) txt = Inr resp \<and> \<not> resp_ok resp \<longrightarrow>
           fst (send_telegram w txt) =
             Inl (RuntimeError (ascii ''Telegram error: '' @ resp_text resp))))"
  by (auto simp: send_telegram_def Let_def split: sum.splits)

theorem send_telegram_fatal_errors_witness:
  "BOT_TOKEN missing_token_world = []
   \<and> send_telegram missing_token_world (ascii ''hello'')
       = (Inl (RuntimeError (ascii ''Telegram credentials missing.'')), [])
   \<and> BOT_TOKEN refusing_world \<noteq> [] \<and> CHAT_ID refusing_world \<noteq> []
   \<and> send_telegram refusing_world (ascii ''hello'')
       = (Inl (RuntimeError (ascii ''Telegram error: Bad Request: chat not found'')),
          [Post (ascii ''https://api.telegram.org/bot123:abc/sendMessage'') (ascii ''42'')
             (ascii ''hello'')])"
  using send_telegram_fatal_errors [of missing_token_world "ascii ''hello''"]
    send_telegram_fatal_errors [of refusing_world "ascii ''hello''"]
  by (simp add: missing_token_world_def refusing_world_def calm_world_def send_telegram_def
      ascii_def)

section \<open>Main flow: properties\<close>

lemma process_entries_Cons:
  "process_entries w (entry # entries) processed =
     (if MAX_ITEMS \<le> length processed then (processed, [])
      else case fst (process_entry w entry) of
        Inl exc \<Rightarrow>
          (fst (process_entries w entries processed),
           snd (process_entry w entry) @ snd (process_entries w entries processed))
      | Inr it \<Rightarrow>
          (fst (process_entries w entries (processed @ [it])),
           snd (process_entry w entry) @ snd (process_entries w entries (processed @ [it]))))"
  by (cases "process_entry w entry") (simp add: split_beta split: sum.splits)

lemma process_entry_logs:
  "e \<in> set (snd (process_entry w entry)) \<Longrightarrow> \<exists>l f a. e = Log l f a"
  by (cases entry)
     (auto simp: process_entry_def extract_text_def Let_def
       split: prod.splits sum.splits option.splits if_splits)

lemma process_entries_logs:
  "e \<in> set (snd (process_entries w entries processed)) \<Longrightarrow> \<exists>l f a. e = Log l f a"
proof (induction entries arbitrary: processed)
  case Nil
  then show ?case by simp
next
  case (Cons entry entries)
  then show ?case
    by (auto simp: process_entries_Cons simp del: process_entries.simps
        split: if_splits sum.splits dest: process_entry_logs)
qed

lemma process_entries_length:
  "length (fst (process_entries w entries processed)) \<le> max (length processed) MAX_ITEMS"
proof (induction entries arbitrary: processed)
  case Nil
  then show ?case by simp
next
  case (Cons entry entries)
  show ?case
    using Cons.IH [of processed] Cons.IH [of "processed @ [it]" for it]
    by (auto simp: process_entries_Cons max_def simp del: process_entries.simps
        split: if_splits sum.splits)
qed

lemma process_entries_full:
  "length processed \<ge> MAX_ITEMS \<Longrightarrow> process_entries w entries processed = (processed, [])"
  by (cases entries) simp_all

lemma process_entries_append:
  "process_entries w (xs @ ys) processed =
     (fst (process_entries w ys (fst (process_entries w xs processed))),
      snd (process_entries w xs processed)
      @ snd (process_entries w ys (fst (process_entries w xs processed))))"
proof (induction xs arbitrary: processed)
  case Nil
  then show ?case by simp
next
  case (Cons x xs)
  show ?case
  proof (cases "length processed \<ge> MAX_ITEMS")
    case True
    then show ?thesis by (simp add: process_entries_full)
  next
    case False
    then show ?thesis
      by (simp add: process_entries_Cons Cons.IH del: process_entries.simps split: sum.splits)
  qed
qed

lemma process_entry_failed:
  assumes "entry = (title, link, summary_html, published)"
    and "summarize w (fst (extract_text w link summary_html)) = Inl exc
         \<or> (\<exists>en. summarize w (fst (extract_text w link summary_html)) = Inr en
                 \<and> translate_persian w en = Inl exc)"
  shows "fst (process_entry w entry) = Inl exc
       \<and> Log ERROR (ascii ''OpenAI failed for '%s': %s'') [StrArg title, ExnArg exc]
           \<in> set (snd (process_entry w entry))"
  using assms by (auto simp: process_entry_def Let_def split_beta split: sum.splits)

lemmas scenario_defs =
  scenario_world_def three_entries_def first_entry_def second_entry_def third_entry_def
  calm_world_def process_entry_def extract_text_def fallback_text_def summarize_def
  translate_persian_def chat_completion_def strip_def cut_to_def split_def is_space_def
  MAX_ITEMS_def MODEL_SUMMARY_def MODEL_TRANSLATE_def ascii_def Let_def

lemma story_text:
  assumes "Article w = None" "html_unescape w = decode_refs" "textwrap_shorten w = cut_to"
  shows "extract_text w url (ascii ''story 1'') = (ascii ''story 1'', [])"
    and "extract_text w url (ascii ''story 2'') = (ascii ''story 2'', [])"
    and "extract_text w url (ascii ''story 3'') = (ascii ''story 3'', [])"
  by (simp_all add: assms extract_text_def fallback_text_def cut_to_def split_def is_space_def
      ascii_def)

lemma translator_plain:
  "Article translator_fails_world = None"
  "html_unescape translator_fails_world = decode_refs"
  "textwrap_shorten translator_fails_world = cut_to"
  by (simp_all add: translator_fails_world_def calm_world_def)

lemma translator_summarize:
  "t \<noteq> [] \<Longrightarrow>
   summarize translator_fails_world t = Inr (strip (ascii ''Summary '' @ [last t]))"
  by (simp add: summarize_def chat_completion_def translator_fails_world_def calm_world_def
      MODEL_SUMMARY_def Let_def ascii_def)

lemma translator_translate:
  "t \<noteq> [] \<Longrightarrow>
   translate_persian translator_fails_world t =
     (if last t = 50 then Inl (ExternalError (ascii ''Service unavailable''))
      else Inr (ascii ''Tarjome.''))"
  by (simp add: translate_persian_def chat_completion_def translator_fails_world_def
      calm_world_def MODEL_TRANSLATE_def Let_def ascii_def strip_def is_space_def)

lemma translator_entries:
  "process_entry translator_fails_world first_entry =
     (Inr (ascii ''First'', ascii ''Summary 1'', ascii ''Tarjome.''),
      [Log INFO (ascii ''Processing: %s'') [StrArg (ascii ''First'')]])"
  "process_entry translator_fails_world second_entry =
     (Inl (ExternalError (ascii ''Service unavailable'')),
      [Log INFO (ascii ''Processing: %s'') [StrArg (ascii ''Second'')],
       Log ERROR (ascii ''OpenAI failed for '%s': %s'')
         [StrArg (ascii ''Second''), ExnArg (ExternalError (ascii ''Service unavailable''))]])"
  "process_entry translator_fails_world third_entry =
     (Inr (ascii ''Third'', ascii ''Summary 3'', ascii ''Tarjome.''),
      [Log INFO (ascii ''Processing: %s'') [StrArg (ascii ''Third'')]])"
  by (simp_all add: process_entry_def first_entry_def second_entry_def third_entry_def
      story_text [OF translator_plain] Let_def)
     (simp_all add: translator_summarize translator_translate strip_def is_space_def ascii_def)

lemma process_entry_item:
  "fst (process_entry w (title, link, summary_html, published)) =
     (case summarize w (fst (extract_text w link summary_html)) of
        Inl exc \<Rightarrow> Inl exc
      | Inr en \<Rightarrow>
          (case translate_persian w en of
             Inl exc \<Rightarrow> Inl exc
           | Inr fa \<Rightarrow> Inr (title, en, fa)))"
  by (simp add: process_entry_def Let_def split_beta split: sum.splits)

lemma process_entries_items:
  "fst (process_entries w entries processed) =
     processed @ take (MAX_ITEMS - length processed)
       (List.map_filter (\<lambda>e. case fst (process_entry w e) of Inl exc \<Rightarrow> None | Inr it \<Rightarrow> Some it)
          entries)"
proof (induction entries arbitrary: processed)
  case Nil
  then show ?case by (simp add: List.map_filter_simps)
next
  case (Cons entry entries)
  show ?case
  proof (cases "MAX_ITEMS \<le> length processed")
    case True
    then show ?thesis by (simp add: process_entries_full)
  next
    case False
    then obtain k where k: "MAX_ITEMS - length processed = Suc k"
      by (cases "MAX_ITEMS - length processed") auto
    then have k': "MAX_ITEMS - Suc (length processed) = k"
      by simp
    from False show ?thesis
      by (simp add: process_entries_Cons Cons.IH List.map_filter_simps k k'
          del: process_entries.simps split: sum.splits)
  qed
qed

lemma item_filter_eq:
  "(\<lambda>e. case fst (process_entry w e) of Inl exc \<Rightarrow> None | Inr it \<Rightarrow> Some it) =
   (\<lambda>(title, link, summary_html, published).
      case summarize w (fst (extract_text w link summary_html)) of
        Inl exc \<Rightarrow> None
      | Inr en \<Rightarrow>
          (case translate_persian w en of
             Inl exc \<Rightarrow> None
           | Inr fa \<Rightarrow> Some (title, en, fa)))"
  by (auto simp: fun_eq_iff process_entry_item split: sum.splits)

lemma scenario_processed:
  "process_entries scenario_world three_entries [] =
     ([(ascii ''First'', ascii ''Summary.'', ascii ''Summary.''),
       (ascii ''Third'', ascii ''Summary.'', ascii ''Summary.'')],
      [Log INFO (ascii ''Processing: %s'') [StrArg (ascii ''First'')],
       Log INFO (ascii ''Processing: %s'') [StrArg (ascii ''Second'')],
       Log ERROR (ascii ''OpenAI failed for '%s': %s'')
         [StrArg (ascii ''Second''), ExnArg (ExternalError (ascii ''Rate limit reached''))],
       Log INFO (ascii ''Processing: %s'') [StrArg (ascii ''Third'')]])"
  by (simp add: scenario_defs)

lemma run_once_on_eq:
  "run_once_on w entries =
     (if fst (process_entries w entries []) = []
      then (Inr (), snd (process_entries w entries [])
              @ [Log WARNING (ascii ''No items processed '' @ [8211] @ ascii '' aborting send.'') []])
      else
        (fst (send_telegram w (build_message (fst (process_entries w entries [])))),
         snd (process_entries w entries [])
         @ snd (send_telegram w (build_message (fst (process_entries w entries []))))
         @ (case fst (send_telegram w (build_message (fst (process_entries w entries [])))) of
              Inl exc \<Rightarrow> []
            | Inr u \<Rightarrow> [Log INFO (ascii ''Message sent to Telegram (length %s)'')
                         [IntArg (int (length (build_message (fst (process_entries w entries [])))))]])))"
  by (simp add: run_once_on_def Let_def split_beta split: sum.splits)

text \<open>
  C3. In \<open>run_once\<close>, after the entries are fetched: at most five items are processed. When
  none is, the run logs the warning and returns without an error and without a post. When
  at least one is, the outcome of the run is the outcome of \<open>send_telegram\<close> on the message
  built from these one to five items, and its events are those of the processing, then
  those of \<open>send_telegram\<close>, then no further post. \<open>run_once\<close> itself is the fetch followed
  by this, and ends with the exception of the fetch if it raises.
\<close>

theorem delivery_only_with_processed_items:
  "(let processed = fst (process_entries w entries []);
        ev = snd (process_entries w entries [])
    in length processed \<le> 5
       \<and> (processed = [] \<longrightarrow>
            run_once_on w entries =
              (Inr (), ev @ [Log WARNING (ascii ''No items processed '' @ [8211] @ ascii '' aborting send.'') []])
            \<and> (\<forall>url chat txt. Post url chat txt \<notin> set (snd (run_once_on w entries))))
       \<and> (processed \<noteq> [] \<longrightarrow>
            fst (run_once_on w entries) = fst (send_telegram w (build_message processed))
            \<and> (\<exists>ev'. snd (run_once_on w entries)
                        = ev @ snd (send_telegram w (build_message processed)) @ ev'
                    \<and> (\<forall>url chat txt. Post url chat txt \<notin> set ev'))))
   \<and> run_once w =
       (case fetch_recent_entries w of
          Inl exc \<Rightarrow> (Inl exc, [Log INFO (ascii ''Fetching recent entries'' @ [8230]) []])
        | Inr entries' \<Rightarrow>
            (fst (run_once_on w entries'),
             Log INFO (ascii ''Fetching recent entries'' @ [8230]) [] # snd (run_once_on w entries')))"
proof -
  have len: "length (fst (process_entries w entries [])) \<le> 5"
    using process_entries_length [of w entries "[]"] by (simp add: MAX_ITEMS_def)
  have nopost: "Post url chat body \<notin> set (snd (process_entries w entries []))" for url chat body
    using process_entries_logs [of "Post url chat body" w entries "[]"] by auto
  have ro: "run_once w =
       (case fetch_recent_entries w of
          Inl exc \<Rightarrow> (Inl exc, [Log INFO (ascii ''Fetching recent entries'' @ [8230]) []])
        | Inr entries' \<Rightarrow>
            (fst (run_once_on w entries'),
             Log INFO (ascii ''Fetching recent entries'' @ [8230]) [] # snd (run_once_on w entries')))"
    by (simp add: run_once_def Let_def split_beta split: sum.splits)
  have empty: "fst (process_entries w entries []) = [] \<Longrightarrow>
      run_once_on w entries =
        (Inr (), snd (process_entries w entries [])
           @ [Log WARNING (ascii ''No items processed '' @ [8211] @ ascii '' aborting send.'') []])
      \<and> (\<forall>url chat txt. Post url chat txt \<notin> set (snd (run_once_on w entries)))"
    using nopost by (simp add: run_once_on_eq)
  have some: "fst (process_entries w entries []) \<noteq> [] \<Longrightarrow>
      fst (run_once_on w entries)
        = fst (send_telegram w (build_message (fst (process_entries w entries []))))
      \<and> (\<exists>ev'. snd (run_once_on w entries)
            = snd (process_entries w entries [])
              @ snd (send_telegram w (build_message (fst (process_entries w entries [])))) @ ev'
            \<and> (\<forall>url chat txt. Post url chat txt \<notin> set ev'))"
    by (simp add: run_once_on_eq split: sum.splits)
  from len empty some ro show ?thesis
    unfolding Let_def by blast
qed

theorem delivery_only_with_processed_items_witness:
  "fst (process_entries calm_world [] []) = []
   \<and> run_once_on calm_world [] =
       (Inr (), [Log WARNING (ascii ''No items processed '' @ [8211] @ ascii '' aborting send.'') []])
   \<and> fst (process_entries scenario_world three_entries []) =
       [(ascii ''First'', ascii ''Summary.'', ascii ''Summary.''),
        (ascii ''Third'', ascii ''Summary.'', ascii ''Summary.'')]
   \<and> fst (run_once_on scenario_world three_entries) = Inr ()
   \<and> Post (ascii ''https://api.telegram.org/bot123:abc/sendMessage'') (ascii ''42'')
        (build_message [(ascii ''First'', ascii ''Summary.'', ascii ''Summary.''),
                        (ascii ''Third'', ascii ''Summary.'', ascii ''Summary.'')])
       \<in> set (snd (run_once_on scenario_world three_entries))"
proof -
  have st: "send_telegram scenario_world body =
      (Inr (), [Post (ascii ''https://api.telegram.org/bot123:abc/sendMessage'') (ascii ''42'') body])"
    for body
    by (simp add: send_telegram_def scenario_world_def calm_world_def ascii_def)
  show ?thesis
    using delivery_only_with_processed_items [of calm_world "[]"]
      delivery_only_with_processed_items [of scenario_world three_entries]
    by (auto simp: scenario_processed st Let_def)
qed

text \<open>
  C4. Let a model call fail for an entry: \<open>summarize\<close> raises, or \<open>translate_persian\<close>
  raises on the summary. Then the items processed from a list that holds the entry are
  those processed from the list without it, whatever has been processed before; if the
  loop reaches the entry, the error is logged with the entry's title and the exception;
  and the items of the run are exactly those of the other entries whose two calls both
  succeed, each with its title, summary and translation, in order, up to five. So only the
  failing entry is dropped, the loop goes on and every other entry gives what it gives.
\<close>

theorem failed_model_call_drops_only_that_entry:
  assumes "entry = (title, link, summary_html, published)"
    and "summarize w (fst (extract_text w link summary_html)) = Inl exc
         \<or> (\<exists>en. summarize w (fst (extract_text w link summary_html)) = Inr en
                 \<and> translate_persian w en = Inl exc)"
  shows "fst (process_entries w (before @ entry # after) processed)
           = fst (process_entries w (before @ after) processed)
       \<and> (length (fst (process_entries w before processed)) < MAX_ITEMS \<longrightarrow>
            Log ERROR (ascii ''OpenAI failed for '%s': %s'') [StrArg title, ExnArg exc]
              \<in> set (snd (process_entries w (before @ entry # after) processed)))
       \<and> fst (process_entries w (before @ entry # after) []) =
           take MAX_ITEMS
             (List.map_filter
                (\<lambda>(title, link, summary_html, published).
                   case summarize w (fst (extract_text w link summary_html)) of
                     Inl exc \<Rightarrow> None
                   | Inr en \<Rightarrow>
                       (case translate_persian w en of
                          Inl exc \<Rightarrow> None
                        | Inr fa \<Rightarrow> Some (title, en, fa)))
                (before @ after))"
proof -
  define p1 where "p1 = fst (process_entries w before processed)"
  from process_entry_failed [OF assms]
  have pe: "fst (process_entry w entry) = Inl exc"
    and lg: "Log ERROR (ascii ''OpenAI failed for '%s': %s'') [StrArg title, ExnArg exc]
               \<in> set (snd (process_entry w entry))"
    by simp_all
  have 1: "fst (process_entries w (entry # after) p1) = fst (process_entries w after p1)"
    using pe by (simp add: process_entries_Cons process_entries_full del: process_entries.simps)
  have 2: "length p1 < MAX_ITEMS \<Longrightarrow>
      Log ERROR (ascii ''OpenAI failed for '%s': %s'') [StrArg title, ExnArg exc]
        \<in> set (snd (process_entries w (entry # after) p1))"
    using pe lg by (simp add: process_entries_Cons del: process_entries.simps)
  have 3: "fst (process_entries w (before @ entry # after) processed)
           = fst (process_entries w (before @ after) processed)" for processed
    using pe
    by (simp add: process_entries_append [of w before] process_entries_Cons process_entries_full
        del: process_entries.simps)
  have 4: "fst (process_entries w (before @ after) []) =
           take MAX_ITEMS
             (List.map_filter
                (\<lambda>(title, link, summary_html, published).
                   case summarize w (fst (extract_text w link summary_html)) of
                     Inl exc \<Rightarrow> None
                   | Inr en \<Rightarrow>
                       (case translate_persian w en of
                          Inl exc \<Rightarrow> None
                        | Inr fa \<Rightarrow> Some (title, en, fa)))
                (before @ after))"
    by (simp add: process_entries_items item_filter_eq)
  show ?thesis
    using 2 3 4 unfolding p1_def
    by (simp add: process_entries_append [of w before] del: process_entries.simps)
qed

theorem failed_model_call_drops_only_that_entry_witness:
  "(summarize scenario_world
      (fst (extract_text scenario_world (ascii ''https://example.org/2'') (ascii ''story 2'')))
      = Inl (ExternalError (ascii ''Rate limit reached''))
    \<and> fst (process_entries scenario_world [first_entry, second_entry, third_entry] [])
        = [(ascii ''First'', ascii ''Summary.'', ascii ''Summary.''),
           (ascii ''Third'', ascii ''Summary.'', ascii ''Summary.'')]
    \<and> fst (process_entries scenario_world [first_entry, third_entry] [])
        = [(ascii ''First'', ascii ''Summary.'', ascii ''Summary.''),
           (ascii ''Third'', ascii ''Summary.'', ascii ''Summary.'')]
    \<and> Log ERROR (ascii ''OpenAI failed for '%s': %s'')
         [StrArg (ascii ''Second''), ExnArg (ExternalError (ascii ''Rate limit reached''))]
        \<in> set (snd (process_entries scenario_world [first_entry, second_entry, third_entry] [])))
   \<and> (summarize translator_fails_world
      (fst (extract_text translator_fails_world (ascii ''https://example.org/2'') (ascii ''story 2'')))
      = Inr (ascii ''Summary 2'')
    \<and> translate_persian translator_fails_world (ascii ''Summary 2'')
        = Inl (ExternalError (ascii ''Service unavailable''))
    \<and> fst (process_entries translator_fails_world [first_entry, second_entry, third_entry] [])
        = [(ascii ''First'', ascii ''Summary 1'', ascii ''Tarjome.''),
           (ascii ''Third'', ascii ''Summary 3'', ascii ''Tarjome.'')]
    \<and> fst (process_entries translator_fails_world [first_entry, third_entry] [])
        = [(ascii ''First'', ascii ''Summary 1'', ascii ''Tarjome.''),
           (ascii ''Third'', ascii ''Summary 3'', ascii ''Tarjome.'')]
    \<and> Log ERROR (ascii ''OpenAI failed for '%s': %s'')
         [StrArg (ascii ''Second''), ExnArg (ExternalError (ascii ''Service unavailable''))]
        \<in> set (snd (process_entries translator_fails_world
                 [first_entry, second_entry, third_entry] [])))"
proof -
  have summarize_fails:
    "summarize scenario_world
      (fst (extract_text scenario_world (ascii ''https://example.org/2'') (ascii ''story 2'')))
      = Inl (ExternalError (ascii ''Rate limit reached''))
    \<and> fst (process_entries scenario_world [first_entry, second_entry, third_entry] [])
        = [(ascii ''First'', ascii ''Summary.'', ascii ''Summary.''),
           (ascii ''Third'', ascii ''Summary.'', ascii ''Summary.'')]
    \<and> fst (process_entries scenario_world [first_entry, third_entry] [])
        = [(ascii ''First'', ascii ''Summary.'', ascii ''Summary.''),
           (ascii ''Third'', ascii ''Summary.'', ascii ''Summary.'')]
    \<and> Log ERROR (ascii ''OpenAI failed for '%s': %s'')
         [StrArg (ascii ''Second''), ExnArg (ExternalError (ascii ''Rate limit reached''))]
        \<in> set (snd (process_entries scenario_world [first_entry, second_entry, third_entry] []))"
  proof -
    have a: "summarize scenario_world
       (fst (extract_text scenario_world (ascii ''https://example.org/2'') (ascii ''story 2'')))
       = Inl (ExternalError (ascii ''Rate limit reached''))"
      by (simp add: scenario_defs)
    have c: "length (fst (process_entries scenario_world [first_entry] [])) < MAX_ITEMS"
      by (simp add: scenario_defs)
    have e: "fst (process_entries scenario_world [first_entry, third_entry] [])
        = [(ascii ''First'', ascii ''Summary.'', ascii ''Summary.''),
           (ascii ''Third'', ascii ''Summary.'', ascii ''Summary.'')]"
      by (simp add: scenario_defs)
    note th = failed_model_call_drops_only_that_entry [OF second_entry_def disjI1 [OF a],
        of "[first_entry]" "[third_entry]" "[]"]
    from th [THEN conjunct1] th [THEN conjunct2, THEN conjunct1] a c e show ?thesis
      by (simp del: process_entries.simps)
  qed
  have translate_fails:
    "summarize translator_fails_world
      (fst (extract_text translator_fails_world (ascii ''https://example.org/2'') (ascii ''story 2'')))
      = Inr (ascii ''Summary 2'')
    \<and> translate_persian translator_fails_world (ascii ''Summary 2'')
        = Inl (ExternalError (ascii ''Service unavailable''))
    \<and> fst (process_entries translator_fails_world [first_entry, second_entry, third_entry] [])
        = [(ascii ''First'', ascii ''Summary 1'', ascii ''Tarjome.''),
           (ascii ''Third'', ascii ''Summary 3'', ascii ''Tarjome.'')]
    \<and> fst (process_entries translator_fails_world [first_entry, third_entry] [])
        = [(ascii ''First'', ascii ''Summary 1'', ascii ''Tarjome.''),
           (ascii ''Third'', ascii ''Summary 3'', ascii ''Tarjome.'')]
    \<and> Log ERROR (ascii ''OpenAI failed for '%s': %s'')
         [StrArg (ascii ''Second''), ExnArg (ExternalError (ascii ''Service unavailable''))]
        \<in> set (snd (process_entries translator_fails_world
                 [first_entry, second_entry, third_entry] []))"
  proof -
    have a: "summarize translator_fails_world
       (fst (extract_text translator_fails_world (ascii ''https://example.org/2'') (ascii ''story 2'')))
       = Inr (ascii ''Summary 2'')"
      by (simp add: story_text [OF translator_plain])
         (simp add: translator_summarize strip_def is_space_def ascii_def)
    have b: "translate_persian translator_fails_world (ascii ''Summary 2'')
       = Inl (ExternalError (ascii ''Service unavailable''))"
      by (simp add: translator_translate ascii_def)
    have c: "length (fst (process_entries translator_fails_world [first_entry] [])) < MAX_ITEMS"
      by (simp add: translator_entries MAX_ITEMS_def)
    have e: "fst (process_entries translator_fails_world [first_entry, third_entry] [])
        = [(ascii ''First'', ascii ''Summary 1'', ascii ''Tarjome.''),
           (ascii ''Third'', ascii ''Summary 3'', ascii ''Tarjome.'')]"
      by (simp add: translator_entries MAX_ITEMS_def)
    from a b have d: "summarize translator_fails_world
          (fst (extract_text translator_fails_world (ascii ''https://example.org/2'')
                 (ascii ''story 2'')))
          = Inl (ExternalError (ascii ''Service unavailable''))
        \<or> (\<exists>en. summarize translator_fails_world
          (fst (extract_text translator_fails_world (ascii ''https://example.org/2'')
                 (ascii ''story 2'')))
            = Inr en \<and> translate_persian translator_fails_world en
            = Inl (ExternalError (ascii ''Service unavailable'')))"
      by simp
    note th = failed_model_call_drops_only_that_entry [OF second_entry_def d,
        of "[first_entry]" "[third_entry]" "[]"]
    from th [THEN conjunct1] th [THEN conjunct2, THEN conjunct1] a b c e show ?thesis
      by (simp del: process_entries.simps)
  qed
  from summarize_fails translate_fails show ?thesis
    by (rule conjI)
qed

section \<open>Continuous mode: properties\<close>

lemma next_run_value:
  "next_run tz c =
     (let local = c + tz c;
          today = (local div 86400000000) * 86400000000 + 34200000000;
          target = \<lparr>wall = (if local < today then today else today + 86400000000),
                    tzinfo = Some (tz c)\<rparr>
      in Inr (target, instant target - c))"
  by (simp add: next_run_def Let_def astimezone_def now_utc_def instant_def replace_time_def
      td_days_def dt_ge_def dt_diff_def dt_plus_def)

lemma sleep_bounds:
  fixes local today d :: int
  assumes "today = (local div 86400000000) * 86400000000 + 34200000000"
    and "d = (if local < today then today else today + 86400000000) - local"
  shows "0 < d \<and> d \<le> 86400000000"
proof -
  have "local = local div 86400000000 * 86400000000 + local mod 86400000000"
    by simp
  moreover have "0 \<le> local mod 86400000000" and "local mod 86400000000 < 86400000000"
    by simp_all
  ultimately show ?thesis
    unfolding assms by (auto simp: Let_def)
qed

lemma main_loop_step:
  "next_run tz c = Inr (target, sleep_td) \<Longrightarrow> 0 \<le> sleep_td \<Longrightarrow>
   main_loop tz ((c, w) # script) =
     (case run_once w of
        (Inl exc, ev) \<Rightarrow> (Some exc, sleeping target sleep_td @ ev)
      | (Inr u, ev) \<Rightarrow>
          (fst (main_loop tz script),
           sleeping target sleep_td @ ev @ snd (main_loop tz script)))"
  by (simp add: sleeping_def split: prod.splits sum.splits)

lemma run_once_broken_feed:
  "run_once broken_feed_world =
     (Inl (ExternalError (ascii ''Connection reset by peer'')),
      [Log INFO (ascii ''Fetching recent entries'' @ [8230]) []])"
  by (simp add: run_once_def fetch_recent_entries_def fetch_entries_from_def RSS_FEEDS_def
      broken_feed_world_def calm_world_def ascii_def)

lemma run_once_calm:
  "run_once calm_world =
     (Inr (), [Log INFO (ascii ''Fetching recent entries'' @ [8230]) [],
               Log WARNING (ascii ''No items processed '' @ [8211] @ ascii '' aborting send.'') []])"
  by (simp add: run_once_def run_once_on_def fetch_recent_entries_def fetch_entries_from_def
      RSS_FEEDS_def calm_world_def sort_newest_first_def ascii_def)

text \<open>
  C8, as the claim states it: for every current time the target is 09:30 Tehran time. At
  2021-03-21 12:00:00 UTC, 15:30 in Tehran at UTC+3:30, the target is 09:30 of the next
  day at UTC+3:30; Tehran is at UTC+4:30 by then, and its clock reads 10:30 at the target.
\<close>

theorem target_misses_0930_across_dst_change:
  "next_run tehran_2021 1616328000000000
     = Inr (\<lparr>wall = 1616405400000000, tzinfo = Some 12600000000\<rparr>, 64800000000)
   \<and> astimezone tehran_2021 \<lparr>wall = 1616405400000000, tzinfo = Some 12600000000\<rparr>
     = \<lparr>wall = 1616409000000000, tzinfo = Some 16200000000\<rparr>
   \<and> (1616409000000000 :: int) mod 86400000000 = 37800000000"
  by (simp add: next_run_value Let_def tehran_2021_def instant_def astimezone_def)

text \<open>
  C8, amended. For every clock reading \<open>c\<close>, with \<open>local\<close> the Tehran wall-clock reading at
  \<open>c\<close> and \<open>today\<close> 09:30 of that local day: the target is \<open>today\<close> when \<open>local\<close> is before
  it and 09:30 of the next day when \<open>local\<close> is at or after it, both in the zone offset in
  force at \<open>c\<close>; the time slept is the time from \<open>c\<close> to the target, more than nothing and
  at most a day; where the offset at the target is the one at \<open>c\<close>, the target read on the
  Tehran clock is that same 09:30; and the iteration logs, sleeps that long and then runs
  the pipeline.
\<close>

theorem next_run_is_next_0930:
  "(let local = c + tz c;
        today = (local div 86400000000) * 86400000000 + 34200000000;
        target = \<lparr>wall = (if local < today then today else today + 86400000000),
                  tzinfo = Some (tz c)\<rparr>;
        sleep_td = instant target - c
    in next_run tz c = Inr (target, sleep_td)
       \<and> 0 < sleep_td \<and> sleep_td \<le> 86400000000
       \<and> (tz (instant target) = tz c \<longrightarrow> astimezone tz target = target)
       \<and> (\<exists>rest. snd (main_loop tz ((c, w) # script)) =
            [Log INFO (ascii ''Sleeping %.1f h until next run at %s Tehran'')
               [HoursArg sleep_td, DatetimeArg target], Sleep sleep_td]
            @ snd (run_once w) @ rest))"
proof -
  define local where "local = c + tz c"
  define today where "today = (local div 86400000000) * 86400000000 + 34200000000"
  define target where
    "target = \<lparr>wall = (if local < today then today else today + 86400000000),
               tzinfo = Some (tz c)\<rparr>"
  define sleep_td where "sleep_td = instant target - c"
  have nr: "next_run tz c = Inr (target, sleep_td)"
    by (simp add: next_run_value Let_def sleep_td_def target_def today_def local_def)
  have "sleep_td = (if local < today then today else today + 86400000000) - local"
    by (simp add: sleep_td_def target_def instant_def local_def)
  from sleep_bounds [OF today_def this] have b: "0 < sleep_td" "sleep_td \<le> 86400000000"
    by simp_all
  have z: "tz (instant target) = tz c \<longrightarrow> astimezone tz target = target"
    by (simp add: astimezone_def Let_def target_def instant_def)
  have "\<exists>rest. snd (main_loop tz ((c, w) # script)) =
          sleeping target sleep_td @ snd (run_once w) @ rest"
    using b(1) by (cases "run_once w")
      (auto simp: main_loop_step [OF nr] simp del: main_loop.simps split: sum.splits)
  with nr b z have "next_run tz c = Inr (target, sleep_td)
       \<and> 0 < sleep_td \<and> sleep_td \<le> 86400000000
       \<and> (tz (instant target) = tz c \<longrightarrow> astimezone tz target = target)
       \<and> (\<exists>rest. snd (main_loop tz ((c, w) # script)) =
            [Log INFO (ascii ''Sleeping %.1f h until next run at %s Tehran'')
               [HoursArg sleep_td, DatetimeArg target], Sleep sleep_td]
            @ snd (run_once w) @ rest)"
    unfolding sleeping_def by blast
  then show ?thesis
    unfolding Let_def sleep_td_def target_def today_def local_def .
qed

theorem next_run_is_next_0930_witness:
  "next_run tehran 1717286400000000
     = Inr (\<lparr>wall = 1717320600000000, tzinfo = Some 12600000000\<rparr>, 21600000000)
   \<and> next_run tehran 1717329600000000
     = Inr (\<lparr>wall = 1717407000000000, tzinfo = Some 12600000000\<rparr>, 64800000000)
   \<and> tehran (instant \<lparr>wall = 1717407000000000, tzinfo = Some 12600000000\<rparr>) = tehran 1717329600000000
   \<and> astimezone tehran \<lparr>wall = 1717407000000000, tzinfo = Some 12600000000\<rparr>
     = \<lparr>wall = 1717407000000000, tzinfo = Some 12600000000\<rparr>
   \<and> next_run tehran_2021 1625140800000000
     = Inr (\<lparr>wall = 1625218200000000, tzinfo = Some 16200000000\<rparr>, 61200000000)
   \<and> tehran_2021 (instant \<lparr>wall = 1625218200000000, tzinfo = Some 16200000000\<rparr>)
     = tehran_2021 1625140800000000
   \<and> astimezone tehran_2021 \<lparr>wall = 1625218200000000, tzinfo = Some 16200000000\<rparr>
     = \<lparr>wall = 1625218200000000, tzinfo = Some 16200000000\<rparr>"
  using next_run_is_next_0930 [of 1717286400000000 tehran calm_world "[]"]
    next_run_is_next_0930 [of 1717329600000000 tehran calm_world "[]"]
    next_run_is_next_0930 [of 1625140800000000 tehran_2021 calm_world "[]"]
  by (simp add: Let_def tehran_def tehran_2021_def instant_def)

text \<open>
  C9, as the claim states it: a fatal error in one iteration is logged and the next
  iteration still runs. In a script of two iterations in whose first run a feed cannot be
  read, the loop ends with that exception after the first run: nothing is logged about it
  and the second iteration does not start.
\<close>

theorem fatal_error_ends_main_loop:
  "main_loop tehran [(1717329600000000, broken_feed_world), (1717416000000000, calm_world)] =
     (Some (ExternalError (ascii ''Connection reset by peer'')),
      [Log INFO (ascii ''Sleeping %.1f h until next run at %s Tehran'')
         [HoursArg 64800000000,
          DatetimeArg \<lparr>wall = 1717407000000000, tzinfo = Some 12600000000\<rparr>],
       Sleep 64800000000,
       Log INFO (ascii ''Fetching recent entries'' @ [8230]) []])"
  by (simp add: run_once_broken_feed next_run_value tehran_def instant_def Let_def)

text \<open>
  C9, amended. In continuous mode each iteration computes the target, logs and sleeps. An
  exception raised by the run of an iteration ends the loop with that exception, whatever
  the script holds after it; a run that returns is followed by the next iteration.
\<close>

theorem main_loop_stops_at_first_error:
  "\<exists>target sleep_td. next_run tz c = Inr (target, sleep_td) \<and>
     (let ev0 = [Log INFO (ascii ''Sleeping %.1f h until next run at %s Tehran'')
                   [HoursArg sleep_td, DatetimeArg target], Sleep sleep_td]
      in (\<forall>exc. fst (run_once w) = Inl exc \<longrightarrow>
            main_loop tz ((c, w) # script) = (Some exc, ev0 @ snd (run_once w)))
       \<and> (fst (run_once w) = Inr () \<longrightarrow>
            main_loop tz ((c, w) # script) =
              (fst (main_loop tz script), ev0 @ snd (run_once w) @ snd (main_loop tz script))))"
proof -
  obtain target sleep_td where nr: "next_run tz c = Inr (target, sleep_td)"
    by (simp add: next_run_value Let_def)
  then have "sleep_td = (if c + tz c < (c + tz c) div 86400000000 * 86400000000 + 34200000000
      then (c + tz c) div 86400000000 * 86400000000 + 34200000000
      else (c + tz c) div 86400000000 * 86400000000 + 34200000000 + 86400000000) - (c + tz c)"
    by (auto simp: next_run_value Let_def instant_def)
  from sleep_bounds [OF refl this] have pos: "0 \<le> sleep_td"
    by simp
  show ?thesis
    using nr by (cases "run_once w")
      (auto simp: main_loop_step [OF nr pos] sleeping_def simp del: main_loop.simps)
qed

theorem main_loop_stops_at_first_error_witness:
  "fst (run_once broken_feed_world) = Inl (ExternalError (ascii ''Connection reset by peer''))
   \<and> main_loop tehran [(1717329600000000, broken_feed_world), (1717416000000000, calm_world)]
       = main_loop tehran [(1717329600000000, broken_feed_world)]
   \<and> fst (run_once calm_world) = Inr ()
   \<and> fst (main_loop tehran [(1717286400000000, calm_world), (1717329600000000, broken_feed_world)])
       = Some (ExternalError (ascii ''Connection reset by peer''))"
proof -
  have a: "fst (run_once broken_feed_world) = Inl (ExternalError (ascii ''Connection reset by peer''))"
    by (simp add: run_once_broken_feed)
  have b: "fst (run_once calm_world) = Inr ()"
    by (simp add: run_once_calm)
  from main_loop_stops_at_first_error [of tehran 1717329600000000 broken_feed_world
      "[(1717416000000000, calm_world)]"]
    main_loop_stops_at_first_error [of tehran 1717329600000000 broken_feed_world "[]"]
    main_loop_stops_at_first_error [of tehran 1717286400000000 calm_world
      "[(1717329600000000, broken_feed_world)]"]
    a b
  show ?thesis
    by (auto simp: Let_def simp del: main_loop.simps)
qed

end
